theory Spec2Isabelle
  imports Main
begin

section \<open>JavaScript values and control flow used by the constructors\<close>

text \<open>
  The library is TypeScript; its types are erased when it is compiled, so the constructors
  run on whatever object a caller hands them. An optional field or parameter
  (\<^verbatim>\<open>message?: string\<close>) is a \<open>string option\<close>: \<open>None\<close> is JavaScript's
  \<^verbatim>\<open>undefined\<close> (the field is absent), \<open>Some s\<close> is the string \<open>s\<close>. The field
  \<^verbatim>\<open>statusCode: number\<close> is required by the declared interface only, so at run time it
  is \<open>None\<close> when the caller left it out; a present code is an \<open>int\<close> (the spec's
  "integer"; fractional numbers are left out of the model).

  A computation that may throw is a value of \<open>'e + 'a\<close>: \<open>Inl e\<close> is the exception \<open>e\<close>
  thrown, \<open>Inr v\<close> is normal completion with \<open>v\<close>.
\<close>

definition js_truthy :: "string option \<Rightarrow> bool" where
  \<comment> \<open>Truthiness of a \<^verbatim>\<open>string | undefined\<close>: \<^verbatim>\<open>undefined\<close> and \<^verbatim>\<open>""\<close> are falsy.\<close>
  "js_truthy v = (case v of None \<Rightarrow> False | Some s \<Rightarrow> s \<noteq> [])"

definition js_or :: "string option \<Rightarrow> ('e + string) \<Rightarrow> 'e + string" where
  \<comment> \<open>\<^verbatim>\<open>a || b\<close>: the value of \<open>a\<close> when it is truthy; otherwise \<open>b\<close> is evaluated, and
      what it returns or throws is the result.\<close>
  "js_or a b = (case a of None \<Rightarrow> b | Some s \<Rightarrow> if s \<noteq> [] then Inr s else b)"

definition try_catch :: "('e + 'a) \<Rightarrow> ('e \<Rightarrow> 'f + 'a) \<Rightarrow> 'f + 'a" where
  \<comment> \<open>\<^verbatim>\<open>try { body } catch (e) { handler }\<close>\<close>
  "try_catch body handler = (case body of Inl e \<Rightarrow> handler e | Inr v \<Rightarrow> Inr v)"

definition js_arg :: "nat \<Rightarrow> 'a option list \<Rightarrow> 'a option" where
  \<comment> \<open>The \<open>n\<close>-th declared parameter of a call: \<^verbatim>\<open>undefined\<close> when the caller passed
      fewer arguments; arguments beyond the declared parameters are never read.\<close>
  "js_arg n args = (if n < length args then args ! n else None)"

section \<open>The options object and the constructed object\<close>

text \<open>
  \<^verbatim>\<open>
  interface Options {
    statusCode: number
    message?: string
    status?: string
  }
  \<close>
\<close>

record Options =
  statusCode :: "int option"
  message :: "string option"
  status :: "string option"

text \<open>
  The three \<^verbatim>\<open>public readonly\<close> fields that \<^verbatim>\<open>HttpResponse\<close> and \<^verbatim>\<open>HttpError\<close>
  declare (the spec's Outcome). \<open>statusCode\<close> is stored as received, so it is absent when
  the options had none.
\<close>

record Outcome =
  statusCode :: "int option"
  message :: string
  status :: string

section \<open>The generic constructors\<close>

text \<open>
  The status registry \<^verbatim>\<open>HttpStatus.getStatusText\<close> belongs to the package
  \<^verbatim>\<open>http-status-codes\<close>, which is not part of the repository. The constructors take it
  as the parameter \<open>getStatusText\<close>: given the value of \<^verbatim>\<open>options.statusCode\<close> it returns
  a label or throws some exception of an arbitrary type \<open>'e\<close>.

  \<^verbatim>\<open>
  constructor(options: Options) {
    const { status, message, statusCode } = options
    try {
      this.status = status || HttpStatus.getStatusText(options.statusCode)
    } catch (e) {
      this.status = 'Unknown'
    }
    this.message = message || this.status
    this.statusCode = statusCode
  }
  \<close>
\<close>

definition HttpResponse :: "(int option \<Rightarrow> 'e + string) \<Rightarrow> Options \<Rightarrow> 'e + Outcome" where
  "HttpResponse getStatusText options =
     (let status = Options.status options;
          message = Options.message options;
          statusCode = Options.statusCode options
      in case try_catch (js_or status (getStatusText (Options.statusCode options)))
                        (\<lambda>e. Inr ''Unknown'') of
           Inl e \<Rightarrow> Inl e
         | Inr this_status \<Rightarrow>
             (case js_or message (Inr this_status) of
                Inl e \<Rightarrow> Inl e
              | Inr this_message \<Rightarrow>
                  Inr \<lparr>Outcome.statusCode = statusCode,
                       message = this_message,
                       status = this_status\<rparr>))"

text \<open>
  \<^verbatim>\<open>HttpError extends Error\<close>: the constructor first calls \<^verbatim>\<open>super()\<close> with no
  argument, which sets up the \<^verbatim>\<open>Error\<close> part of the object and reads none of the
  options, and then runs the same statements on the same three fields.
\<close>

definition HttpError :: "(int option \<Rightarrow> 'e + string) \<Rightarrow> Options \<Rightarrow> 'e + Outcome" where
  "HttpError getStatusText options =
     (let status = Options.status options;
          message = Options.message options;
          statusCode = Options.statusCode options
      in case try_catch (js_or status (getStatusText (Options.statusCode options)))
                        (\<lambda>e. Inr ''Unknown'') of
           Inl e \<Rightarrow> Inl e
         | Inr this_status \<Rightarrow>
             (case js_or message (Inr this_status) of
                Inl e \<Rightarrow> Inl e
              | Inr this_message \<Rightarrow>
                  Inr \<lparr>Outcome.statusCode = statusCode,
                       message = this_message,
                       status = this_status\<rparr>))"

section \<open>The named variants\<close>

text \<open>
  Every named variant is a subclass whose constructor only calls \<^verbatim>\<open>super\<close> with its own
  status code. The class names are the constructors of a datatype, and the code each class
  writes in its \<^verbatim>\<open>super\<close> call is the table below, one equation per class, in the order
  of the source.

  \<^verbatim>\<open>responses.ts\<close>, and identically lines 30 to 213 of \<^verbatim>\<open>index.ts\<close>:
  \<^verbatim>\<open>
  export class Created extends HttpResponse {
    constructor(message?: string) {
      super({ statusCode: 201, message })
    }
  }
  \<close>
\<close>

datatype response_class =
    Continue | Created | MovedPermanently | MovedTemporarily | MultiStatus
  | MultipleChoices | NoContent | NonAuthoritativeInformation | NotModified | Success
  | PartialContent | PermanentRedirect | Processing | ResetContent | SeeOther
  | SwitchingProtocols | TemporaryRedirect

fun response_statusCode :: "response_class \<Rightarrow> int" where
  "response_statusCode Continue = 100"
| "response_statusCode Created = 201"
| "response_statusCode MovedPermanently = 301"
| "response_statusCode MovedTemporarily = 302"
| "response_statusCode MultiStatus = 207"
| "response_statusCode MultipleChoices = 300"
| "response_statusCode NoContent = 204"
| "response_statusCode NonAuthoritativeInformation = 203"
| "response_statusCode NotModified = 304"
| "response_statusCode Success = 200"
| "response_statusCode PartialContent = 206"
| "response_statusCode PermanentRedirect = 308"
| "response_statusCode Processing = 102"
| "response_statusCode ResetContent = 205"
| "response_statusCode SeeOther = 303"
| "response_statusCode SwitchingProtocols = 101"
| "response_statusCode TemporaryRedirect = 307"

definition new_response ::
  "response_class \<Rightarrow> (int option \<Rightarrow> 'e + string) \<Rightarrow> string option list \<Rightarrow> 'e + Outcome" where
  \<comment> \<open>\<^verbatim>\<open>new C(...args)\<close> for a class \<open>C\<close> of \<^verbatim>\<open>responses.ts\<close>: one declared
      parameter, and an options object without a \<^verbatim>\<open>status\<close> field.\<close>
  "new_response c getStatusText args =
     (let message = js_arg 0 args
      in HttpResponse getStatusText
           \<lparr>Options.statusCode = Some (response_statusCode c),
            message = message,
            status = None\<rparr>)"

text \<open>
  The error file (\<^verbatim>\<open>HttpError\<close> and its subclasses), and with \<^verbatim>\<open>HttpResponse\<close> as
  the base class lines 221 to 586 of \<^verbatim>\<open>index.ts\<close>:
  \<^verbatim>\<open>
  export class BadRequest extends HttpError {
    constructor(message?: string, status?: string) {
      super({ statusCode: 400, message, status })
    }
  }
  \<close>
  The two files declare the same classes with the same codes.
\<close>

datatype error_class =
    BadGateway | BadRequest | Conflict | ExpectationFailed | FailedDependency
  | Forbidden | GatewayTimeout | Gone | HttpVersionNotSupported | ImATeapot
  | InsufficientSpaceOnResource | InsufficientStorage | InternalServerError
  | LengthRequired | Locked | MethodNotAllowed | NetworkAuthenticationRequired
  | NotAcceptable | NotFound | NotImplemented | PaymentRequired | PreconditionFailed
  | PreconditionRequired | ProxyAuthenticationRequired | RequestHeaderFieldsTooLarge
  | RequestTimeout | RequestTooLong | RequestURITooLong | RequestedRangeNotSatisfiable
  | ServiceUnavailable | TooManyRequests | Unauthorized | UnprocessableEntity
  | UnsupportedMediaType

fun error_statusCode :: "error_class \<Rightarrow> int" where
  "error_statusCode BadGateway = 502"
| "error_statusCode BadRequest = 400"
| "error_statusCode Conflict = 409"
| "error_statusCode ExpectationFailed = 417"
| "error_statusCode FailedDependency = 424"
| "error_statusCode Forbidden = 403"
| "error_statusCode GatewayTimeout = 504"
| "error_statusCode Gone = 410"
| "error_statusCode HttpVersionNotSupported = 410"
| "error_statusCode ImATeapot = 418"
| "error_statusCode InsufficientSpaceOnResource = 419"
| "error_statusCode InsufficientStorage = 419"
| "error_statusCode InternalServerError = 500"
| "error_statusCode LengthRequired = 411"
| "error_statusCode Locked = 423"
| "error_statusCode MethodNotAllowed = 405"
| "error_statusCode NetworkAuthenticationRequired = 511"
| "error_statusCode NotAcceptable = 406"
| "error_statusCode NotFound = 404"
| "error_statusCode NotImplemented = 501"
| "error_statusCode PaymentRequired = 402"
| "error_statusCode PreconditionFailed = 412"
| "error_statusCode PreconditionRequired = 428"
| "error_statusCode ProxyAuthenticationRequired = 407"
| "error_statusCode RequestHeaderFieldsTooLarge = 431"
| "error_statusCode RequestTimeout = 408"
| "error_statusCode RequestTooLong = 413"
| "error_statusCode RequestURITooLong = 414"
| "error_statusCode RequestedRangeNotSatisfiable = 416"
| "error_statusCode ServiceUnavailable = 503"
| "error_statusCode TooManyRequests = 429"
| "error_statusCode Unauthorized = 401"
| "error_statusCode UnprocessableEntity = 422"
| "error_statusCode UnsupportedMediaType = 415"

definition new_error ::
  "error_class \<Rightarrow> (int option \<Rightarrow> 'e + string) \<Rightarrow> string option list \<Rightarrow> 'e + Outcome" where
  \<comment> \<open>\<^verbatim>\<open>new C(...args)\<close> for a subclass \<open>C\<close> of \<^verbatim>\<open>HttpError\<close>: two declared
      parameters.\<close>
  "new_error c getStatusText args =
     (let message = js_arg 0 args;
          status = js_arg 1 args
      in HttpError getStatusText
           \<lparr>Options.statusCode = Some (error_statusCode c),
            message = message,
            status = status\<rparr>)"

definition new_index_error ::
  "error_class \<Rightarrow> (int option \<Rightarrow> 'e + string) \<Rightarrow> string option list \<Rightarrow> 'e + Outcome" where
  \<comment> \<open>The same classes as \<^verbatim>\<open>index.ts\<close> declares them, on \<^verbatim>\<open>HttpResponse\<close>.\<close>
  "new_index_error c getStatusText args =
     (let message = js_arg 0 args;
          status = js_arg 1 args
      in HttpResponse getStatusText
           \<lparr>Options.statusCode = Some (error_statusCode c),
            message = message,
            status = status\<rparr>)"

section \<open>The standard codes\<close>

text \<open>
  Modelled from the spec: the spec has every named variant fix \<open>statusCode\<close> to "its
  standard code" and refers to a code table that is not in the repository. The two tables
  below give, for each class, the code that the HTTP status code registry assigns to the
  status the class is named after and documents, in numeric order.
  \<open>InsufficientSpaceOnResource\<close> has no registered code; 419 is the one the status
  package gives that name. The spec's notes give 505 for \<open>HttpVersionNotSupported\<close>; 507
  is the registered code of \<open>InsufficientStorage\<close>.
\<close>

fun standard_response_statusCode :: "response_class \<Rightarrow> int" where
  "standard_response_statusCode Continue = 100"
| "standard_response_statusCode SwitchingProtocols = 101"
| "standard_response_statusCode Processing = 102"
| "standard_response_statusCode Success = 200"
| "standard_response_statusCode Created = 201"
| "standard_response_statusCode NonAuthoritativeInformation = 203"
| "standard_response_statusCode NoContent = 204"
| "standard_response_statusCode ResetContent = 205"
| "standard_response_statusCode PartialContent = 206"
| "standard_response_statusCode MultiStatus = 207"
| "standard_response_statusCode MultipleChoices = 300"
| "standard_response_statusCode MovedPermanently = 301"
| "standard_response_statusCode MovedTemporarily = 302"
| "standard_response_statusCode SeeOther = 303"
| "standard_response_statusCode NotModified = 304"
| "standard_response_statusCode TemporaryRedirect = 307"
| "standard_response_statusCode PermanentRedirect = 308"

fun standard_error_statusCode :: "error_class \<Rightarrow> int" where
  "standard_error_statusCode BadRequest = 400"
| "standard_error_statusCode Unauthorized = 401"
| "standard_error_statusCode PaymentRequired = 402"
| "standard_error_statusCode Forbidden = 403"
| "standard_error_statusCode NotFound = 404"
| "standard_error_statusCode MethodNotAllowed = 405"
| "standard_error_statusCode NotAcceptable = 406"
| "standard_error_statusCode ProxyAuthenticationRequired = 407"
| "standard_error_statusCode RequestTimeout = 408"
| "standard_error_statusCode Conflict = 409"
| "standard_error_statusCode Gone = 410"
| "standard_error_statusCode LengthRequired = 411"
| "standard_error_statusCode PreconditionFailed = 412"
| "standard_error_statusCode RequestTooLong = 413"
| "standard_error_statusCode RequestURITooLong = 414"
| "standard_error_statusCode UnsupportedMediaType = 415"
| "standard_error_statusCode RequestedRangeNotSatisfiable = 416"
| "standard_error_statusCode ExpectationFailed = 417"
| "standard_error_statusCode ImATeapot = 418"
| "standard_error_statusCode InsufficientSpaceOnResource = 419"
| "standard_error_statusCode UnprocessableEntity = 422"
| "standard_error_statusCode Locked = 423"
| "standard_error_statusCode FailedDependency = 424"
| "standard_error_statusCode PreconditionRequired = 428"
| "standard_error_statusCode TooManyRequests = 429"
| "standard_error_statusCode RequestHeaderFieldsTooLarge = 431"
| "standard_error_statusCode InternalServerError = 500"
| "standard_error_statusCode NotImplemented = 501"
| "standard_error_statusCode BadGateway = 502"
| "standard_error_statusCode ServiceUnavailable = 503"
| "standard_error_statusCode GatewayTimeout = 504"
| "standard_error_statusCode HttpVersionNotSupported = 505"
| "standard_error_statusCode InsufficientStorage = 507"
| "standard_error_statusCode NetworkAuthenticationRequired = 511"

section \<open>A consumer-defined variant\<close>







section \<open>A registry to run the constructors on\<close>

datatype lookup_fault = NotRegistered | OtherFault

text \<open>
  Modelled from the spec: the status registry is an external collaborator (the package
  \<^verbatim>\<open>http-status-codes\<close>) and its table is not in the repository. \<open>sample_registry\<close>
  holds the two labels the spec states, 400 and 201, and fails on every other code, as
  the spec says the lookup does on an unregistered code such as 999. \<open>faulty_registry\<close>
  fails on every code with a fault other than not-found. Both only serve to run the
  constructors on concrete inputs; every general theorem is about an arbitrary registry.
\<close>

definition sample_registry :: "int option \<Rightarrow> lookup_fault + string" where
  "sample_registry code =
     (if code = Some 400 then Inr ''Bad Request''
      else if code = Some 201 then Inr ''Created''
      else Inl NotRegistered)"

definition faulty_registry :: "int option \<Rightarrow> lookup_fault + string" where
  "faulty_registry code = Inl OtherFault"

section \<open>The fields in closed form\<close>

text \<open>
  What the two assignments of the constructor body leave in \<^verbatim>\<open>this.status\<close> and
  \<^verbatim>\<open>this.message\<close>, written without exceptions. The lemmas \<open>HttpResponse_result\<close>
  and \<open>HttpError_result\<close> below prove that the constructors compute exactly these.
\<close>

definition resolved_status :: "(int option \<Rightarrow> 'e + string) \<Rightarrow> Options \<Rightarrow> string" where
  "resolved_status reg options =
     (case Options.status options of
        None \<Rightarrow> (case reg (Options.statusCode options) of Inl e \<Rightarrow> ''Unknown'' | Inr l \<Rightarrow> l)
      | Some x \<Rightarrow> if x \<noteq> [] then x
                  else (case reg (Options.statusCode options) of
                          Inl e \<Rightarrow> ''Unknown'' | Inr l \<Rightarrow> l))"

definition resolved_message :: "(int option \<Rightarrow> 'e + string) \<Rightarrow> Options \<Rightarrow> string" where
  "resolved_message reg options =
     (case Options.message options of
        None \<Rightarrow> resolved_status reg options
      | Some x \<Rightarrow> if x \<noteq> [] then x else resolved_status reg options)"

section \<open>Basic facts about the constructors\<close>

lemma js_or_truthy:
  "js_or a b = (case a of None \<Rightarrow> b | Some s \<Rightarrow> if js_truthy a then Inr s else b)"
  by (simp add: js_or_def js_truthy_def split: option.splits)

lemma try_status_cases:
  "try_catch (js_or s (reg c)) (\<lambda>e. Inr ''Unknown'') =
     Inr (case s of
            None \<Rightarrow> (case reg c of Inl e \<Rightarrow> ''Unknown'' | Inr l \<Rightarrow> l)
          | Some x \<Rightarrow> if x \<noteq> [] then x
                      else (case reg c of Inl e \<Rightarrow> ''Unknown'' | Inr l \<Rightarrow> l))"
  by (simp add: try_catch_def js_or_def split: option.splits sum.splits)

lemma message_cases:
  "js_or m (Inr st) =
     Inr (case m of None \<Rightarrow> st | Some x \<Rightarrow> if x \<noteq> [] then x else st)"
  by (simp add: js_or_def split: option.splits)

lemma HttpResponse_result:
  "HttpResponse reg options =
     Inr \<lparr>Outcome.statusCode = Options.statusCode options,
          message = resolved_message reg options,
          status = resolved_status reg options\<rparr>"
  by (simp add: HttpResponse_def Let_def try_status_cases message_cases
        resolved_message_def resolved_status_def split: option.splits)

lemma HttpError_result:
  "HttpError reg options =
     Inr \<lparr>Outcome.statusCode = Options.statusCode options,
          message = resolved_message reg options,
          status = resolved_status reg options\<rparr>"
  by (simp add: HttpError_def Let_def try_status_cases message_cases
        resolved_message_def resolved_status_def split: option.splits)

lemma response_statusCode_standard:
  "response_statusCode d = standard_response_statusCode d"
  by (cases d) simp_all

lemma error_statusCode_standard:
  "c \<noteq> HttpVersionNotSupported \<Longrightarrow> c \<noteq> InsufficientStorage \<Longrightarrow>
   error_statusCode c = standard_error_statusCode c"
  by (cases c) simp_all

lemma new_error_result:
  "new_error c reg args =
     Inr \<lparr>Outcome.statusCode = Some (error_statusCode c),
          message = resolved_message reg
            \<lparr>Options.statusCode = Some (error_statusCode c),
             message = js_arg 0 args, status = js_arg 1 args\<rparr>,
          status = resolved_status reg
            \<lparr>Options.statusCode = Some (error_statusCode c),
             message = js_arg 0 args, status = js_arg 1 args\<rparr>\<rparr>"
  by (simp add: new_error_def Let_def HttpError_result)

lemma new_index_error_result:
  "new_index_error c reg args =
     Inr \<lparr>Outcome.statusCode = Some (error_statusCode c),
          message = resolved_message reg
            \<lparr>Options.statusCode = Some (error_statusCode c),
             message = js_arg 0 args, status = js_arg 1 args\<rparr>,
          status = resolved_status reg
            \<lparr>Options.statusCode = Some (error_statusCode c),
             message = js_arg 0 args, status = js_arg 1 args\<rparr>\<rparr>"
  by (simp add: new_index_error_def Let_def HttpResponse_result)

lemma new_response_result:
  "new_response d reg args =
     Inr \<lparr>Outcome.statusCode = Some (response_statusCode d),
          message = resolved_message reg
            \<lparr>Options.statusCode = Some (response_statusCode d),
             message = js_arg 0 args, status = None\<rparr>,
          status = resolved_status reg
            \<lparr>Options.statusCode = Some (response_statusCode d),
             message = js_arg 0 args, status = None\<rparr>\<rparr>"
  by (simp add: new_response_def Let_def HttpResponse_result)

section \<open>Status resolution\<close>

text \<open>
  C1. For every options object and every registry, both constructors return an object whose
  \<open>status\<close> is: the supplied status when one is supplied and is not empty; otherwise
  the registry's label for the supplied \<open>statusCode\<close> when the lookup returns one;
  otherwise, when the lookup throws, the literal \<open>''Unknown''\<close>.
\<close>

theorem status_resolution:
  fixes reg :: "int option \<Rightarrow> 'e + string"
  shows "\<exists>r x. HttpResponse reg opts = Inr r \<and> HttpError reg opts = Inr x \<and>
           (\<forall>s. Options.status opts = Some s \<and> s \<noteq> [] \<longrightarrow>
                  Outcome.status r = s \<and> Outcome.status x = s) \<and>
           (\<forall>l. \<not> js_truthy (Options.status opts) \<and> reg (Options.statusCode opts) = Inr l \<longrightarrow>
                  Outcome.status r = l \<and> Outcome.status x = l) \<and>
           (\<forall>e. \<not> js_truthy (Options.status opts) \<and> reg (Options.statusCode opts) = Inl e \<longrightarrow>
                  Outcome.status r = ''Unknown'' \<and> Outcome.status x = ''Unknown'')"
  by (auto simp add: HttpResponse_result HttpError_result resolved_status_def js_truthy_def
        split: option.splits)

text \<open>
  The three cases on the sample registry: a supplied label, an empty label with a
  registered code, and no label with the unregistered code 999.
\<close>

theorem status_resolution_witness:
  "(\<exists>r x. HttpResponse sample_registry
             \<lparr>Options.statusCode = Some 400, message = None, status = Some ''Validation Error''\<rparr> = Inr r \<and>
          HttpError sample_registry
             \<lparr>Options.statusCode = Some 400, message = None, status = Some ''Validation Error''\<rparr> = Inr x \<and>
          Outcome.status r = ''Validation Error'' \<and> Outcome.status x = ''Validation Error'') \<and>
   (\<exists>r x. HttpResponse sample_registry
             \<lparr>Options.statusCode = Some 201, message = None, status = Some []\<rparr> = Inr r \<and>
          HttpError sample_registry
             \<lparr>Options.statusCode = Some 201, message = None, status = Some []\<rparr> = Inr x \<and>
          Outcome.status r = ''Created'' \<and> Outcome.status x = ''Created'') \<and>
   (\<exists>r x. HttpResponse sample_registry
             \<lparr>Options.statusCode = Some 999, message = None, status = None\<rparr> = Inr r \<and>
          HttpError sample_registry
             \<lparr>Options.statusCode = Some 999, message = None, status = None\<rparr> = Inr x \<and>
          Outcome.status r = ''Unknown'' \<and> Outcome.status x = ''Unknown'')"
  using
    status_resolution [of sample_registry
      "\<lparr>Options.statusCode = Some 400, message = None, status = Some ''Validation Error''\<rparr>"]
    status_resolution [of sample_registry
      "\<lparr>Options.statusCode = Some 201, message = None, status = Some []\<rparr>"]
    status_resolution [of sample_registry
      "\<lparr>Options.statusCode = Some 999, message = None, status = None\<rparr>"]
  by (simp add: sample_registry_def js_truthy_def)

section \<open>Message resolution\<close>

text \<open>
  C2. For every options object and every registry, the \<open>message\<close> of the constructed
  object is the supplied message when one is supplied and is not empty, and otherwise it is
  the \<open>status\<close> of that same object, that is the status already resolved: with no
  message, \<open>message\<close> and \<open>status\<close> are equal.
\<close>

theorem message_resolution:
  fixes reg :: "int option \<Rightarrow> 'e + string"
  shows "\<exists>r x. HttpResponse reg opts = Inr r \<and> HttpError reg opts = Inr x \<and>
           (\<forall>m. Options.message opts = Some m \<and> m \<noteq> [] \<longrightarrow>
                  Outcome.message r = m \<and> Outcome.message x = m) \<and>
           (\<not> js_truthy (Options.message opts) \<longrightarrow>
                  Outcome.message r = Outcome.status r \<and> Outcome.message x = Outcome.status x)"
  by (auto simp add: HttpResponse_result HttpError_result resolved_message_def js_truthy_def
        split: option.splits)

text \<open>
  \<^verbatim>\<open>Created('User Created!')\<close> keeps its message; \<^verbatim>\<open>{statusCode: 400}\<close> gets its status
  as message.
\<close>

theorem message_resolution_witness:
  "(\<exists>r x. HttpResponse sample_registry
             \<lparr>Options.statusCode = Some 201, message = Some ''User Created!'', status = None\<rparr> = Inr r \<and>
          HttpError sample_registry
             \<lparr>Options.statusCode = Some 201, message = Some ''User Created!'', status = None\<rparr> = Inr x \<and>
          Outcome.message r = ''User Created!'' \<and> Outcome.message x = ''User Created!'') \<and>
   (\<exists>r x. HttpResponse sample_registry
             \<lparr>Options.statusCode = Some 400, message = None, status = None\<rparr> = Inr r \<and>
          HttpError sample_registry
             \<lparr>Options.statusCode = Some 400, message = None, status = None\<rparr> = Inr x \<and>
          Outcome.message r = Outcome.status r \<and> Outcome.message x = Outcome.status x)"
  using
    message_resolution [of sample_registry
      "\<lparr>Options.statusCode = Some 201, message = Some ''User Created!'', status = None\<rparr>"]
    message_resolution [of sample_registry
      "\<lparr>Options.statusCode = Some 400, message = None, status = None\<rparr>"]
  by (simp add: js_truthy_def)

section \<open>Construction without a status code\<close>

text \<open>
  The constructors contain no check of \<^verbatim>\<open>statusCode\<close> and no \<^verbatim>\<open>throw\<close>: the field is
  required by the \<^verbatim>\<open>Options\<close> interface, which the compiler enforces and the compiled
  code does not. On the options object \<^verbatim>\<open>{}\<close> both constructors return an object: its
  code is absent and, the registry having no entry for an absent code, its status and message
  are \<open>''Unknown''\<close>. No error is signalled.
\<close>

theorem construct_without_statusCode_returns:
  "HttpResponse sample_registry \<lparr>Options.statusCode = None, message = None, status = None\<rparr>
     = Inr \<lparr>Outcome.statusCode = None, message = ''Unknown'', status = ''Unknown''\<rparr> \<and>
   HttpError sample_registry \<lparr>Options.statusCode = None, message = None, status = None\<rparr>
     = Inr \<lparr>Outcome.statusCode = None, message = ''Unknown'', status = ''Unknown''\<rparr>"
  by (simp add: HttpResponse_result HttpError_result resolved_message_def resolved_status_def
        sample_registry_def)

text \<open>
  C3, as the code has it. \<open>statusCode\<close> is mandatory in the declared type of the options
  only, \<open>message\<close> and \<open>status\<close> are optional; at run time construction signals no
  error for any options object, whichever of the three fields are absent, and the object it
  returns carries the \<open>statusCode\<close> it was given, absent when it was absent.
\<close>

theorem statusCode_stored_unchecked:
  fixes reg :: "int option \<Rightarrow> 'e + string"
  shows "\<exists>r x. HttpResponse reg opts = Inr r \<and> HttpError reg opts = Inr x \<and>
           Outcome.statusCode r = Options.statusCode opts \<and>
           Outcome.statusCode x = Options.statusCode opts"
  by (simp add: HttpResponse_result HttpError_result)

section \<open>Failed lookups are absorbed\<close>

text \<open>
  C4. Whenever the registry lookup for the supplied \<open>statusCode\<close> throws, whatever the
  exception \<open>e\<close> is (an unregistered code or any other fault), both constructors complete
  normally. The lookup is the right operand of \<^verbatim>\<open>status || ...\<close>, so it is consulted
  exactly when no non-empty status is supplied; the status is then \<open>''Unknown''\<close>, and so
  is the message when no non-empty message is supplied.
\<close>

theorem lookup_failure_absorbed:
  fixes reg :: "int option \<Rightarrow> 'e + string"
  assumes "reg (Options.statusCode opts) = Inl e"
  shows "\<exists>r x. HttpResponse reg opts = Inr r \<and> HttpError reg opts = Inr x \<and>
           (\<not> js_truthy (Options.status opts) \<longrightarrow>
              Outcome.status r = ''Unknown'' \<and> Outcome.status x = ''Unknown'' \<and>
              (\<not> js_truthy (Options.message opts) \<longrightarrow>
                 Outcome.message r = ''Unknown'' \<and> Outcome.message x = ''Unknown''))"
  using assms
  by (auto simp add: HttpResponse_result HttpError_result resolved_message_def
        resolved_status_def js_truthy_def split: option.splits)

text \<open>
  \<^verbatim>\<open>{statusCode: 999}\<close> on the sample registry, where 999 is not registered, and an
  options object on a registry that fails in another way.
\<close>

theorem lookup_failure_absorbed_witness:
  "sample_registry (Some 999) = Inl NotRegistered \<and>
   faulty_registry (Some 400) = Inl OtherFault \<and>
   (\<exists>r x. HttpResponse sample_registry
             \<lparr>Options.statusCode = Some 999, message = None, status = None\<rparr> = Inr r \<and>
          HttpError sample_registry
             \<lparr>Options.statusCode = Some 999, message = None, status = None\<rparr> = Inr x \<and>
          Outcome.status r = ''Unknown'' \<and> Outcome.status x = ''Unknown'' \<and>
          Outcome.message r = ''Unknown'' \<and> Outcome.message x = ''Unknown'') \<and>
   (\<exists>r x. HttpResponse faulty_registry
             \<lparr>Options.statusCode = Some 400, message = Some ''No luck'', status = Some []\<rparr> = Inr r \<and>
          HttpError faulty_registry
             \<lparr>Options.statusCode = Some 400, message = Some ''No luck'', status = Some []\<rparr> = Inr x \<and>
          Outcome.status r = ''Unknown'' \<and> Outcome.status x = ''Unknown'')"
proof -
  have a: "sample_registry (Some 999) = Inl NotRegistered"
    by (simp add: sample_registry_def)
  have b: "faulty_registry (Some 400) = Inl OtherFault"
    by (simp add: faulty_registry_def)
  show ?thesis
    using a b
      lookup_failure_absorbed [of sample_registry
        "\<lparr>Options.statusCode = Some 999, message = None, status = None\<rparr>" NotRegistered]
      lookup_failure_absorbed [of faulty_registry
        "\<lparr>Options.statusCode = Some 400, message = Some ''No luck'', status = Some []\<rparr>"
        OtherFault]
    by (simp add: js_truthy_def)
qed

section \<open>Signatures of the named variants\<close>

text \<open>
  The subclasses of \<^verbatim>\<open>responses.ts\<close> declare the single parameter \<^verbatim>\<open>message\<close>. A
  second argument is never read: \<^verbatim>\<open>new Created('User Created!', 'Custom')\<close> has the
  registry's label as status, where the generic constructor given the same status has
  \<open>''Custom''\<close>.
\<close>

theorem response_variant_ignores_status:
  "new_response Created sample_registry [Some ''User Created!'', Some ''Custom'']
     = Inr \<lparr>Outcome.statusCode = Some 201, message = ''User Created!'', status = ''Created''\<rparr> \<and>
   HttpResponse sample_registry
     \<lparr>Options.statusCode = Some 201, message = Some ''User Created!'', status = Some ''Custom''\<rparr>
     = Inr \<lparr>Outcome.statusCode = Some 201, message = ''User Created!'', status = ''Custom''\<rparr>"
  by (simp add: new_response_def Let_def js_arg_def HttpResponse_result resolved_message_def
        resolved_status_def sample_registry_def)

text \<open>
  C5, as the code has it. Every named variant fixes \<open>statusCode\<close> to one constant code
  and delegates to the generic constructor; for every variant other than
  \<^verbatim>\<open>HttpVersionNotSupported\<close> and \<^verbatim>\<open>InsufficientStorage\<close> that code is the variant's
  standard code. The variants of the error family (the subclasses of \<^verbatim>\<open>HttpError\<close>, and
  the same classes in \<^verbatim>\<open>index.ts\<close>) have the signature \<^verbatim>\<open>(message?, status?)\<close>: a
  non-empty status argument becomes the status, a non-empty message argument the message.
  The variants of the response family (\<^verbatim>\<open>responses.ts\<close>, and the same classes in
  \<^verbatim>\<open>index.ts\<close>) have the signature \<^verbatim>\<open>(message?)\<close> only: a non-empty message argument
  becomes the message, and the status is the registry's label for the code, or
  \<open>''Unknown''\<close>, whatever else is passed. Arguments beyond the declared ones have no
  effect.
\<close>

theorem variant_signatures:
  fixes reg :: "int option \<Rightarrow> 'e + string"
  shows
   "(\<exists>k. \<forall>a. new_error c reg a =
              HttpError reg \<lparr>Options.statusCode = Some k,
                             message = js_arg 0 a, status = js_arg 1 a\<rparr> \<and>
            new_index_error c reg a =
              HttpResponse reg \<lparr>Options.statusCode = Some k,
                                message = js_arg 0 a, status = js_arg 1 a\<rparr>) \<and>
    (\<exists>x i. new_error c reg args = Inr x \<and> new_index_error c reg args = Inr i \<and>
       (c \<noteq> HttpVersionNotSupported \<and> c \<noteq> InsufficientStorage \<longrightarrow>
          Outcome.statusCode x = Some (standard_error_statusCode c) \<and>
          Outcome.statusCode i = Some (standard_error_statusCode c)) \<and>
       (\<forall>s. js_arg 1 args = Some s \<and> s \<noteq> [] \<longrightarrow>
          Outcome.status x = s \<and> Outcome.status i = s) \<and>
       (\<forall>m. js_arg 0 args = Some m \<and> m \<noteq> [] \<longrightarrow>
          Outcome.message x = m \<and> Outcome.message i = m)) \<and>
    new_response d reg args =
      HttpResponse reg \<lparr>Options.statusCode = Some (standard_response_statusCode d),
                        message = js_arg 0 args, status = None\<rparr> \<and>
    (\<exists>r. new_response d reg args = Inr r \<and>
       Outcome.statusCode r = Some (standard_response_statusCode d) \<and>
       Outcome.status r =
         (case reg (Some (standard_response_statusCode d)) of
            Inl e \<Rightarrow> ''Unknown'' | Inr l \<Rightarrow> l) \<and>
       (\<forall>m. js_arg 0 args = Some m \<and> m \<noteq> [] \<longrightarrow> Outcome.message r = m)) \<and>
    new_error c reg (u # v # rest) = new_error c reg [u, v] \<and>
    new_index_error c reg (u # v # rest) = new_index_error c reg [u, v] \<and>
    new_response d reg (u # v # rest) = new_response d reg [u]"
proof -
  have fixed: "\<exists>k. \<forall>a. new_error c reg a =
              HttpError reg \<lparr>Options.statusCode = Some k,
                             message = js_arg 0 a, status = js_arg 1 a\<rparr> \<and>
            new_index_error c reg a =
              HttpResponse reg \<lparr>Options.statusCode = Some k,
                                message = js_arg 0 a, status = js_arg 1 a\<rparr>"
    by (rule exI [of _ "error_statusCode c"])
       (simp add: new_error_def new_index_error_def Let_def)
  have err: "\<exists>x i. new_error c reg args = Inr x \<and> new_index_error c reg args = Inr i \<and>
       (c \<noteq> HttpVersionNotSupported \<and> c \<noteq> InsufficientStorage \<longrightarrow>
          Outcome.statusCode x = Some (standard_error_statusCode c) \<and>
          Outcome.statusCode i = Some (standard_error_statusCode c)) \<and>
       (\<forall>s. js_arg 1 args = Some s \<and> s \<noteq> [] \<longrightarrow>
          Outcome.status x = s \<and> Outcome.status i = s) \<and>
       (\<forall>m. js_arg 0 args = Some m \<and> m \<noteq> [] \<longrightarrow>
          Outcome.message x = m \<and> Outcome.message i = m)"
    by (simp add: new_error_result new_index_error_result error_statusCode_standard
          resolved_status_def resolved_message_def)
  have deleg: "new_response d reg args =
      HttpResponse reg \<lparr>Options.statusCode = Some (standard_response_statusCode d),
                        message = js_arg 0 args, status = None\<rparr>"
    by (simp add: new_response_def Let_def response_statusCode_standard)
  have resp: "\<exists>r. new_response d reg args = Inr r \<and>
       Outcome.statusCode r = Some (standard_response_statusCode d) \<and>
       Outcome.status r =
         (case reg (Some (standard_response_statusCode d)) of
            Inl e \<Rightarrow> ''Unknown'' | Inr l \<Rightarrow> l) \<and>
       (\<forall>m. js_arg 0 args = Some m \<and> m \<noteq> [] \<longrightarrow> Outcome.message r = m)"
    by (simp add: new_response_result response_statusCode_standard
          resolved_status_def resolved_message_def)
  have extra: "new_error c reg (u # v # rest) = new_error c reg [u, v]"
    "new_index_error c reg (u # v # rest) = new_index_error c reg [u, v]"
    "new_response d reg (u # v # rest) = new_response d reg [u]"
    by (simp_all add: new_error_def new_index_error_def new_response_def Let_def js_arg_def)
  from fixed err deleg resp extra show ?thesis by blast
qed

text \<open>
  \<^verbatim>\<open>BadRequest\<close> and \<^verbatim>\<open>Created\<close> called with a message and a status, on the sample
  registry.
\<close>

theorem variant_signatures_witness:
  "(\<exists>x i. new_error BadRequest sample_registry
             [Some ''You did something wrong!'', Some ''Custom''] = Inr x \<and>
          new_index_error BadRequest sample_registry
             [Some ''You did something wrong!'', Some ''Custom''] = Inr i \<and>
          Outcome.statusCode x = Some 400 \<and> Outcome.statusCode i = Some 400 \<and>
          Outcome.status x = ''Custom'' \<and> Outcome.status i = ''Custom'' \<and>
          Outcome.message x = ''You did something wrong!'' \<and>
          Outcome.message i = ''You did something wrong!'') \<and>
   (\<exists>r. new_response Created sample_registry
             [Some ''You did something wrong!'', Some ''Custom''] = Inr r \<and>
        Outcome.statusCode r = Some 201 \<and> Outcome.status r = ''Created'' \<and>
        Outcome.message r = ''You did something wrong!'')"
proof -
  let ?a = "[Some ''You did something wrong!'', Some ''Custom'']"
  note v = variant_signatures [of BadRequest sample_registry ?a Created]
  have a0: "js_arg 0 ?a = Some ''You did something wrong!''"
    and a1: "js_arg 1 ?a = Some ''Custom''"
    by (simp_all add: js_arg_def)
  have lab: "sample_registry (Some (standard_response_statusCode Created)) = Inr ''Created''"
    by (simp add: sample_registry_def)
  from v obtain x i where
    X: "new_error BadRequest sample_registry ?a = Inr x"
       "new_index_error BadRequest sample_registry ?a = Inr i"
       "Outcome.statusCode x = Some (standard_error_statusCode BadRequest)"
       "Outcome.statusCode i = Some (standard_error_statusCode BadRequest)"
       "\<forall>s. js_arg 1 ?a = Some s \<and> s \<noteq> [] \<longrightarrow>
          Outcome.status x = s \<and> Outcome.status i = s"
       "\<forall>m. js_arg 0 ?a = Some m \<and> m \<noteq> [] \<longrightarrow>
          Outcome.message x = m \<and> Outcome.message i = m"
    by blast
  from v obtain r where
    R: "new_response Created sample_registry ?a = Inr r"
       "Outcome.statusCode r = Some (standard_response_statusCode Created)"
       "Outcome.status r =
          (case sample_registry (Some (standard_response_statusCode Created)) of
             Inl e \<Rightarrow> ''Unknown'' | Inr l \<Rightarrow> l)"
       "\<forall>m. js_arg 0 ?a = Some m \<and> m \<noteq> [] \<longrightarrow> Outcome.message r = m"
    by blast
  from X(5) a1 have sx: "Outcome.status x = ''Custom''" "Outcome.status i = ''Custom''"
    by simp_all
  from X(6) a0 have mx: "Outcome.message x = ''You did something wrong!''"
    "Outcome.message i = ''You did something wrong!''"
    by simp_all
  from R(4) a0 have mr: "Outcome.message r = ''You did something wrong!''"
    by simp
  from R(3) lab have sr: "Outcome.status r = ''Created''"
    by simp
  show ?thesis
    using X(1-4) R(1,2) sx mx mr sr by simp
qed

section \<open>Variants that share a status code\<close>

text \<open>
  C6. In the error file and in \<^verbatim>\<open>index.ts\<close> alike, \<^verbatim>\<open>HttpVersionNotSupported\<close> fixes
  \<open>statusCode\<close> to 410, the code of \<^verbatim>\<open>Gone\<close>: for every registry and every argument
  list the objects built by the two variants carry the code 410, and not 505.
\<close>

theorem HttpVersionNotSupported_uses_410:
  fixes reg :: "int option \<Rightarrow> 'e + string"
  shows "\<exists>v g v' g'.
           new_error HttpVersionNotSupported reg args = Inr v \<and>
           new_error Gone reg args = Inr g \<and>
           new_index_error HttpVersionNotSupported reg args = Inr v' \<and>
           new_index_error Gone reg args = Inr g' \<and>
           Outcome.statusCode v = Some 410 \<and> Outcome.statusCode g = Some 410 \<and>
           Outcome.statusCode v' = Some 410 \<and> Outcome.statusCode g' = Some 410 \<and>
           Outcome.statusCode v \<noteq> Some 505 \<and> Outcome.statusCode v' \<noteq> Some 505"
  by (simp add: new_error_def new_index_error_def Let_def HttpResponse_result HttpError_result)

text \<open>
  C10. In the error file and in \<^verbatim>\<open>index.ts\<close> alike, \<^verbatim>\<open>InsufficientSpaceOnResource\<close>
  and \<^verbatim>\<open>InsufficientStorage\<close> both fix \<open>statusCode\<close> to 419: for every registry and
  every argument list the two variants build equal objects, with the code 419 and not 507.
\<close>

theorem InsufficientStorage_equals_InsufficientSpaceOnResource:
  fixes reg :: "int option \<Rightarrow> 'e + string"
  shows "new_error InsufficientSpaceOnResource reg args = new_error InsufficientStorage reg args \<and>
         new_index_error InsufficientSpaceOnResource reg args =
           new_index_error InsufficientStorage reg args \<and>
         (\<exists>r r'. new_error InsufficientStorage reg args = Inr r \<and>
                  new_index_error InsufficientStorage reg args = Inr r' \<and>
                  Outcome.statusCode r = Some 419 \<and> Outcome.statusCode r' = Some 419 \<and>
                  Outcome.statusCode r \<noteq> Some 507 \<and> Outcome.statusCode r' \<noteq> Some 507)"
  by (simp add: new_error_def new_index_error_def Let_def HttpResponse_result HttpError_result)

section \<open>A custom variant over a predefined one\<close>




section \<open>Neither field is empty\<close>

text \<open>
  C8. If every label the registry returns is non-empty, then for every options object the
  status and the message of the constructed object are both non-empty: an empty string
  supplied for either is falsy and falls through to the derivation.
\<close>

theorem fields_nonempty:
  fixes reg :: "int option \<Rightarrow> 'e + string"
  assumes "\<forall>c l. reg c = Inr l \<longrightarrow> l \<noteq> []"
  shows "\<exists>r x. HttpResponse reg opts = Inr r \<and> HttpError reg opts = Inr x \<and>
           Outcome.status r \<noteq> [] \<and> Outcome.message r \<noteq> [] \<and>
           Outcome.status x \<noteq> [] \<and> Outcome.message x \<noteq> []"
proof -
  have st: "resolved_status reg opts \<noteq> []"
    using assms by (auto simp add: resolved_status_def split: option.splits sum.splits)
  then have msg: "resolved_message reg opts \<noteq> []"
    by (auto simp add: resolved_message_def split: option.splits)
  show ?thesis
    using st msg by (simp add: HttpResponse_result HttpError_result)
qed

text \<open>
  The sample registry returns non-empty labels only; the options supply the empty string
  for both fields.
\<close>

theorem fields_nonempty_witness:
  "(\<exists>r x. HttpResponse sample_registry
             \<lparr>Options.statusCode = Some 400, message = Some [], status = Some []\<rparr> = Inr r \<and>
          HttpError sample_registry
             \<lparr>Options.statusCode = Some 400, message = Some [], status = Some []\<rparr> = Inr x \<and>
          Outcome.status r \<noteq> [] \<and> Outcome.message r \<noteq> [] \<and>
          Outcome.status x \<noteq> [] \<and> Outcome.message x \<noteq> [])"
proof -
  have h: "\<forall>c l. sample_registry c = Inr l \<longrightarrow> l \<noteq> []"
    by (auto simp add: sample_registry_def split: if_splits)
  show ?thesis
    using fields_nonempty [OF h] by simp
qed

section \<open>The two families construct the same fields\<close>

text \<open>
  C9. For every options object and every registry, \<^verbatim>\<open>HttpError\<close> and
  \<^verbatim>\<open>HttpResponse\<close> build objects with the same \<open>statusCode\<close>, \<open>status\<close> and
  \<open>message\<close>.
\<close>

theorem HttpError_agrees_with_HttpResponse:
  fixes reg :: "int option \<Rightarrow> 'e + string"
  shows "\<exists>r x. HttpResponse reg opts = Inr r \<and> HttpError reg opts = Inr x \<and>
           Outcome.statusCode x = Outcome.statusCode r \<and>
           Outcome.status x = Outcome.status r \<and>
           Outcome.message x = Outcome.message r"
  by (simp add: HttpResponse_result HttpError_result)

end
